theory Spec2Isabelle
  imports Complex_Main
begin

section \<open>Symbol model (mathparser.py)\<close>

text \<open>
  Python strings are modelled as \<open>string\<close> (code points below 256). A Python list used as
  a stack (\<open>append\<close>, \<open>pop\<close>, \<open>[-1]\<close>) is a HOL list whose head is the top of the stack; a
  list that is only appended to and returned (the output \<open>val_stack\<close> of \<open>parse\<close>) keeps the
  Python order. Every \<open>raise\<close> of the source, and every exception a dictionary or list
  access can raise, is a value of \<open>error\<close>; \<open>py_class\<close> gives the Python exception class.
  The numeric type is a parameter \<open>'v\<close>; Python's builtins \<open>float()\<close> and \<open>str()\<close> are
  parameters \<open>flt\<close> and \<open>str_of\<close> of the functions that call them.
\<close>

datatype exn_class =
    ValueError | TypeError | OperandException | OperatorException
  | KeyError | IndexError | ZeroDivisionError

datatype error =
    OperatorExists string      \<comment> \<open>ValueError: Operator token '...' already exists!\<close>
  | FunctionExists string      \<comment> \<open>ValueError: Function token '...' already exists!\<close>
  | ConstantExists string      \<comment> \<open>ValueError: Constant token '...' already exists!\<close>
  | NotAnOperator              \<comment> \<open>TypeError: Operator must be a unary/binary operator!\<close>
  | NoSuchOperator string      \<comment> \<open>OperatorException: Token of binary operator does not exist\<close>
  | MismatchedOpen             \<comment> \<open>OperandException: Mismatched parenthesis for '('\<close>
  | MismatchedClose            \<comment> \<open>OperandException: Mismatched parenthesis for ')'\<close>
  | UnrecognisedToken string   \<comment> \<open>ValueError: Unrecognised token, has not been implemented yet\<close>
  | TooFewOperands string      \<comment> \<open>OperandException: Too few operands to evaluate '...'\<close>
  | NonNumericValue string     \<comment> \<open>OperandException: Non-numeric value was given\<close>
  | TooManyOperands            \<comment> \<open>OperandException: Too many operands was given\<close>
  | TooManyInputs nat          \<comment> \<open>OperandException: Too many inputs given, expected n inputs\<close>
  | MissingKey string          \<comment> \<open>KeyError of a dictionary lookup\<close>
  | OutOfRange                 \<comment> \<open>IndexError of a list or string index\<close>
  | EmptySeparator             \<comment> \<open>ValueError of str.split with an empty separator\<close>
  | InvalidLiteral string      \<comment> \<open>ValueError of int() on a string that is no integer\<close>
  | NotInteger                 \<comment> \<open>TypeError() of _factorial\<close>
  | ArgumentCount              \<comment> \<open>TypeError of a call with the wrong number of arguments\<close>
  | DivisionByZero             \<comment> \<open>ZeroDivisionError\<close>

fun py_class :: "error \<Rightarrow> exn_class" where
  "py_class (OperatorExists _) = ValueError"
| "py_class (FunctionExists _) = ValueError"
| "py_class (ConstantExists _) = ValueError"
| "py_class NotAnOperator = TypeError"
| "py_class (NoSuchOperator _) = OperatorException"
| "py_class MismatchedOpen = OperandException"
| "py_class MismatchedClose = OperandException"
| "py_class (UnrecognisedToken _) = ValueError"
| "py_class (TooFewOperands _) = OperandException"
| "py_class (NonNumericValue _) = OperandException"
| "py_class TooManyOperands = OperandException"
| "py_class (TooManyInputs _) = OperandException"
| "py_class (MissingKey _) = KeyError"
| "py_class OutOfRange = IndexError"
| "py_class EmptySeparator = ValueError"
| "py_class (InvalidLiteral _) = ValueError"
| "py_class NotInteger = TypeError"
| "py_class ArgumentCount = TypeError"
| "py_class DivisionByZero = ZeroDivisionError"

datatype Associativity = RIGHT | LEFT | SPECIAL

text \<open>
  An operation is called as \<open>operation(*args)\<close>: it takes the list of its arguments and
  returns a number or raises.
\<close>

type_synonym 'v operation = "'v list \<Rightarrow> error + 'v"

text \<open>
  \<open>Operator = Union[UnaryOperator, BinaryOperator]\<close>. The arguments are the token, the
  operation, (for a binary operator) the precedence, and the associativity.
\<close>

datatype 'v Operator =
    UnaryOperator string "'v operation" Associativity
  | BinaryOperator string "'v operation" int Associativity

text \<open>
  The objects that pass \<open>isinstance(func, NVarMathFunction)\<close>: the class itself (token,
  operation, n_var), its subclass SingleVarMathFunction (n_var is 1), and the two
  operator classes, which are subclasses too.
\<close>

datatype 'v MathFunction =
    NVarMathFunction string "'v operation" nat
  | SingleVarMathFunction string "'v operation"
  | OperatorObject "'v Operator"

record 'v MathConstant =
  const_token :: string
  const_value :: 'v

fun op_token :: "'v Operator \<Rightarrow> string" where
  "op_token (UnaryOperator t f a) = t"
| "op_token (BinaryOperator t f p a) = t"

fun op_operation :: "'v Operator \<Rightarrow> 'v operation" where
  "op_operation (UnaryOperator t f a) = f"
| "op_operation (BinaryOperator t f p a) = f"

fun op_n_var :: "'v Operator \<Rightarrow> nat" where
  "op_n_var (UnaryOperator t f a) = 1"
| "op_n_var (BinaryOperator t f p a) = 2"

fun is_unary :: "'v Operator \<Rightarrow> bool" where
  "is_unary (UnaryOperator t f a) = True"
| "is_unary (BinaryOperator t f p a) = False"

fun associativity :: "'v Operator \<Rightarrow> Associativity" where
  "associativity (UnaryOperator t f a) = a"
| "associativity (BinaryOperator t f p a) = a"

text \<open>Only a BinaryOperator has the attribute \<open>precedence\<close>.\<close>

fun precedence :: "'v Operator \<Rightarrow> int option" where
  "precedence (UnaryOperator t f a) = None"
| "precedence (BinaryOperator t f p a) = Some p"

fun token :: "'v MathFunction \<Rightarrow> string" where
  "token (NVarMathFunction t f n) = t"
| "token (SingleVarMathFunction t f) = t"
| "token (OperatorObject opr) = op_token opr"

fun operation :: "'v MathFunction \<Rightarrow> 'v operation" where
  "operation (NVarMathFunction t f n) = f"
| "operation (SingleVarMathFunction t f) = f"
| "operation (OperatorObject opr) = op_operation opr"

fun n_var :: "'v MathFunction \<Rightarrow> nat" where
  "n_var (NVarMathFunction t f n) = n"
| "n_var (SingleVarMathFunction t f) = 1"
| "n_var (OperatorObject opr) = op_n_var opr"

text \<open>
  \<open>NVarMathFunction.__call__\<close>: the number of arguments is checked, then the operation
  is applied.
\<close>

definition call :: "'v MathFunction \<Rightarrow> 'v list \<Rightarrow> error + 'v" where
  "call f args =
     (if length args \<noteq> n_var f then Inl (TooManyInputs (n_var f))
      else operation f args)"

section \<open>Symbol registry (class MathEvaluator)\<close>

text \<open>
  The dictionaries \<open>_operators\<close>, \<open>_functions\<close> and \<open>_constants\<close> and the field
  \<open>_implicit_operation\<close> (the dictionary of functions is the field \<open>mfunctions\<close>).
\<close>

record 'v MathEvaluator =
  operators :: "string \<rightharpoonup> 'v Operator"
  mfunctions :: "string \<rightharpoonup> 'v MathFunction"
  constants :: "string \<rightharpoonup> 'v MathConstant"
  implicit_operation :: "'v Operator option"

text \<open>
  A method that mutates the evaluator returns its outcome (\<open>Inr ()\<close>, or \<open>Inl\<close> the
  exception) together with the evaluator as the call leaves it, so that what a failed
  call did to the state is part of the model. \<open>token in dict\<close> is \<open>dict token \<noteq> None\<close>.
\<close>

definition add_operator ::
  "'v MathFunction \<Rightarrow> 'v MathEvaluator \<Rightarrow> (error + unit) \<times> 'v MathEvaluator" where
  "add_operator operator ev =
     (case operator of
        OperatorObject opr \<Rightarrow>
          (if operators ev (op_token opr) \<noteq> None then (Inl (OperatorExists (op_token opr)), ev)
           else (Inr (), ev\<lparr>operators := (operators ev)(op_token opr \<mapsto> opr)\<rparr>))
      | _ \<Rightarrow> (Inl NotAnOperator, ev))"

definition add_function ::
  "'v MathFunction \<Rightarrow> 'v MathEvaluator \<Rightarrow> (error + unit) \<times> 'v MathEvaluator" where
  "add_function func ev =
     (if operators ev (token func) \<noteq> None then (Inl (FunctionExists (token func)), ev)
      else (Inr (), ev\<lparr>mfunctions := (mfunctions ev)(token func \<mapsto> func)\<rparr>))"

definition add_constant ::
  "'v MathConstant \<Rightarrow> 'v MathEvaluator \<Rightarrow> (error + unit) \<times> 'v MathEvaluator" where
  "add_constant constant ev =
     (if constants ev (const_token constant) \<noteq> None
      then (Inl (ConstantExists (const_token constant)), ev)
      else (Inr (), ev\<lparr>constants := (constants ev)(const_token constant \<mapsto> constant)\<rparr>))"

text \<open>The setter of the property \<open>implicit_operation\<close>.\<close>

definition set_implicit_operation ::
  "string \<Rightarrow> 'v MathEvaluator \<Rightarrow> (error + unit) \<times> 'v MathEvaluator" where
  "set_implicit_operation implicit_operation_token ev =
     (case operators ev implicit_operation_token of
        Some opr \<Rightarrow> (Inr (), ev\<lparr>implicit_operation := Some opr\<rparr>)
      | None \<Rightarrow> (Inl (NoSuchOperator implicit_operation_token), ev))"

text \<open>
  \<open>MathEvaluator.__init__\<close>: the three loops that register the given symbols (the first
  exception leaves the constructor, and no evaluator exists), then the implicit
  operation, looked up in the operators without raising.
\<close>

fun add_all ::
  "('a \<Rightarrow> 'v MathEvaluator \<Rightarrow> (error + unit) \<times> 'v MathEvaluator) \<Rightarrow> 'a list \<Rightarrow>
   'v MathEvaluator \<Rightarrow> error + 'v MathEvaluator" where
  "add_all add [] ev = Inr ev"
| "add_all add (x # xs) ev =
     (case add x ev of
        (Inl e, _) \<Rightarrow> Inl e
      | (Inr _, ev') \<Rightarrow> add_all add xs ev')"

definition empty_evaluator :: "'v MathEvaluator" where
  "empty_evaluator =
     \<lparr>operators = Map.empty, mfunctions = Map.empty, constants = Map.empty,
      implicit_operation = None\<rparr>"

definition register_all ::
  "'v MathFunction list \<Rightarrow> 'v MathFunction list \<Rightarrow> 'v MathConstant list \<Rightarrow>
   error + 'v MathEvaluator" where
  "register_all ops funcs consts =
     (case add_all add_operator ops empty_evaluator of
        Inl e \<Rightarrow> Inl e
      | Inr ev1 \<Rightarrow>
          (case add_all add_function funcs ev1 of
             Inl e \<Rightarrow> Inl e
           | Inr ev2 \<Rightarrow> add_all add_constant consts ev2))"

definition init_evaluator ::
  "'v MathFunction list \<Rightarrow> 'v MathFunction list \<Rightarrow> 'v MathConstant list \<Rightarrow> string \<Rightarrow>
   error + 'v MathEvaluator" where
  "init_evaluator ops funcs consts implicit_operation_token =
     (case register_all ops funcs consts of
        Inl e \<Rightarrow> Inl e
      | Inr ev \<Rightarrow>
          Inr (ev\<lparr>implicit_operation :=
                 (if operators ev implicit_operation_token \<noteq> None
                  then operators ev implicit_operation_token else None)\<rparr>))"

section \<open>Strings\<close>

text \<open>\<open>starts_with s p\<close>: \<open>s.startswith(p)\<close>; \<open>contains s t\<close>: \<open>t in s\<close>.\<close>

fun starts_with :: "string \<Rightarrow> string \<Rightarrow> bool" where
  "starts_with s [] = True"
| "starts_with [] (p # ps) = False"
| "starts_with (c # cs) (p # ps) = (c = p \<and> starts_with cs ps)"

fun contains :: "string \<Rightarrow> string \<Rightarrow> bool" where
  "contains [] t = (t = [])"
| "contains (c # cs) t = (starts_with (c # cs) t \<or> contains cs t)"

text \<open>
  \<open>s.split(sep)\<close> for a separator that is not empty: the pieces between the occurrences
  of \<open>sep\<close>, found from left to right without overlap. \<open>cur\<close> is the piece being read.
\<close>

function split_at :: "string \<Rightarrow> string \<Rightarrow> string \<Rightarrow> string list" where
  "split_at sep cur [] = [cur]"
| "split_at sep cur (c # cs) =
     (if sep \<noteq> [] \<and> starts_with (c # cs) sep
      then cur # split_at sep [] (drop (length sep) (c # cs))
      else split_at sep (cur @ [c]) cs)"
  by pat_completeness auto
termination
  by (relation "measure (\<lambda>(sep, cur, s). length s)") auto

definition str_split :: "string \<Rightarrow> string \<Rightarrow> error + string list" where
  "str_split s sep = (if sep = [] then Inl EmptySeparator else Inr (split_at sep [] s))"

fun join :: "string \<Rightarrow> string list \<Rightarrow> string" where
  "join sep [] = []"
| "join sep [x] = x"
| "join sep (x # y # ys) = x @ sep @ join sep (y # ys)"

text \<open>
  \<open>s.split()\<close>: the maximal runs of characters that are not whitespace. The whitespace
  characters below code point 256 are 9 to 13, 28 to 32, 133 and 160.
\<close>

definition is_space :: "char \<Rightarrow> bool" where
  "is_space c =
     (let n = of_char c :: nat
      in (9 \<le> n \<and> n \<le> 13) \<or> (28 \<le> n \<and> n \<le> 32) \<or> n = 133 \<or> n = 160)"

fun split_whitespace :: "string \<Rightarrow> string \<Rightarrow> string list" where
  "split_whitespace cur [] = (if cur = [] then [] else [cur])"
| "split_whitespace cur (c # cs) =
     (if is_space c
      then (if cur = [] then split_whitespace [] cs else cur # split_whitespace [] cs)
      else split_whitespace (cur @ [c]) cs)"

section \<open>Tokenizer (MathEvaluator._shuntyard_format_string)\<close>

text \<open>\<open>is_numeric\<close>: \<open>float(string)\<close> does not raise.\<close>

definition is_numeric :: "(string \<Rightarrow> 'v option) \<Rightarrow> string \<Rightarrow> bool" where
  "is_numeric flt s = (flt s \<noteq> None)"

text \<open>
  \<open>recognised_tokens\<close> is a Python set of strings, and the first loop runs over it in an
  order that the language does not fix. The order is the argument \<open>order\<close>: a list that
  enumerates the set (\<open>enumerates\<close>).
\<close>

definition recognised_tokens :: "'v MathEvaluator \<Rightarrow> string set" where
  "recognised_tokens ev = dom (operators ev) \<union> dom (mfunctions ev) \<union> dom (constants ev)"

definition enumerates :: "string list \<Rightarrow> 'v MathEvaluator \<Rightarrow> bool" where
  "enumerates order ev = (distinct order \<and> set order = recognised_tokens ev)"

text \<open>The first loop: every occurrence of a token is set between two spaces.\<close>

fun isolate_tokens :: "string list \<Rightarrow> string \<Rightarrow> error + string" where
  "isolate_tokens [] string = Inr string"
| "isolate_tokens (tok # toks) string =
     (if contains string tok
      then (case str_split string tok of
              Inl e \<Rightarrow> Inl e
            | Inr temp \<Rightarrow> isolate_tokens toks (join ('' '' @ tok @ '' '') temp))
      else isolate_tokens toks string)"

text \<open>The second loop: \<open>output.extend(sub)\<close> appends every character of \<open>sub\<close>.\<close>

fun emit_tokens :: "(string \<Rightarrow> 'v option) \<Rightarrow> string list \<Rightarrow> string list \<Rightarrow> string list" where
  "emit_tokens flt order [] = []"
| "emit_tokens flt order (sub # subs) =
     (if sub \<in> set order \<or> is_numeric flt sub then [sub] else map (\<lambda>c. [c]) sub)
     @ emit_tokens flt order subs"

definition shuntyard_format_string ::
  "(string \<Rightarrow> 'v option) \<Rightarrow> string list \<Rightarrow> string \<Rightarrow> error + string list" where
  "shuntyard_format_string flt order string =
     (case isolate_tokens order string of
        Inl e \<Rightarrow> Inl e
      | Inr string' \<Rightarrow> Inr (emit_tokens flt order (split_whitespace [] string')))"

section \<open>Shunting-yard converter (MathEvaluator.parse)\<close>

text \<open>
  \<open>check_implicit_operation(index)\<close> appends the implicit operation's token to
  \<open>opt_stack\<close>; the function returns the stack.
\<close>

definition check_implicit_operation ::
  "(string \<Rightarrow> 'v option) \<Rightarrow> 'v MathEvaluator \<Rightarrow> string list \<Rightarrow> nat \<Rightarrow> string list \<Rightarrow>
   string list" where
  "check_implicit_operation flt ev substr index opt_stack =
     (if index \<noteq> 0 \<and> is_numeric flt (substr ! (index - 1))
      then (case implicit_operation ev of
              Some opr \<Rightarrow> op_token opr # opt_stack
            | None \<Rightarrow> opt_stack)
      else opt_stack)"

text \<open>
  \<open>operator_condition(operator_1, operator_2)\<close>: when one of the two is unary the result
  is \<open>(not op1_is_unary) and op2_is_unary\<close>; otherwise both are binary operators.
\<close>

fun operator_condition :: "'v Operator \<Rightarrow> 'v Operator \<Rightarrow> bool" where
  "operator_condition (UnaryOperator t1 f1 a1) operator_2 = False"
| "operator_condition (BinaryOperator t1 f1 p1 a1) (UnaryOperator t2 f2 a2) = True"
| "operator_condition (BinaryOperator t1 f1 p1 a1) (BinaryOperator t2 f2 p2 a2) =
     (let lower_precedence = p1 < p2;
          left_associative = (p1 = p2 \<and> (a1 = LEFT \<or> a1 = SPECIAL))
      in lower_precedence \<or> left_associative)"

text \<open>
  The \<open>while\<close> loop of the operator branch. \<open>self._operators[opt_stack[-1]]\<close> raises
  KeyError when the top of the stack is not an operator's token.
\<close>

fun pop_operators ::
  "'v MathEvaluator \<Rightarrow> 'v Operator \<Rightarrow> string list \<Rightarrow> string list \<Rightarrow>
   error + string list \<times> string list" where
  "pop_operators ev operator_1 [] val_stack = Inr ([], val_stack)"
| "pop_operators ev operator_1 (opt_top # opt_stack) val_stack =
     (if opt_top = ''('' then Inr (opt_top # opt_stack, val_stack)
      else (case operators ev opt_top of
              None \<Rightarrow> Inl (MissingKey opt_top)
            | Some operator_2 \<Rightarrow>
                (if operator_condition operator_1 operator_2
                 then pop_operators ev operator_1 opt_stack (val_stack @ [opt_top])
                 else Inr (opt_top # opt_stack, val_stack))))"

text \<open>
  The loops of the branches \<open>','\<close> and \<open>')'\<close>: pop to the output until the top is \<open>'('\<close>;
  \<open>err\<close> is raised when the stack is or becomes empty.
\<close>

fun pop_until_paren ::
  "error \<Rightarrow> string list \<Rightarrow> string list \<Rightarrow> error + string list \<times> string list" where
  "pop_until_paren err [] val_stack = Inl err"
| "pop_until_paren err (opt_top # opt_stack) val_stack =
     (if opt_top = ''('' then Inr (opt_top # opt_stack, val_stack)
      else pop_until_paren err opt_stack (val_stack @ [opt_top]))"

text \<open>The body of the \<open>for\<close> loop, on the pair \<open>(opt_stack, val_stack)\<close>.\<close>

definition parse_token ::
  "(string \<Rightarrow> 'v option) \<Rightarrow> 'v MathEvaluator \<Rightarrow> string list \<Rightarrow> nat \<Rightarrow> string \<Rightarrow>
   string list \<times> string list \<Rightarrow> error + string list \<times> string list" where
  "parse_token flt ev substr i string stacks =
     (case stacks of (opt_stack, val_stack) \<Rightarrow>
        if is_numeric flt string then Inr (opt_stack, val_stack @ [string])
        else if constants ev string \<noteq> None
        then Inr (check_implicit_operation flt ev substr i opt_stack, val_stack @ [string])
        else if mfunctions ev string \<noteq> None
        then Inr (string # check_implicit_operation flt ev substr i opt_stack, val_stack)
        else (case operators ev string of
          Some operator_1 \<Rightarrow>
            (case pop_operators ev operator_1 opt_stack val_stack of
               Inl e \<Rightarrow> Inl e
             | Inr (opt_stack', val_stack') \<Rightarrow> Inr (string # opt_stack', val_stack'))
        | None \<Rightarrow>
            if string = '','' then pop_until_paren MismatchedOpen opt_stack val_stack
            else if string = ''('' then Inr (string # opt_stack, val_stack)
            else if string = '')''
            then (case pop_until_paren MismatchedClose opt_stack val_stack of
                    Inl e \<Rightarrow> Inl e
                  | Inr (opt_stack', val_stack') \<Rightarrow>
                      (case tl opt_stack' of
                         [] \<Rightarrow> Inr ([], val_stack')
                       | opt_top # rest \<Rightarrow>
                           if mfunctions ev opt_top \<noteq> None then Inr (rest, val_stack' @ [opt_top])
                           else Inr (opt_top # rest, val_stack')))
            else Inl (UnrecognisedToken string)))"

text \<open>\<open>for i, string in enumerate(substr)\<close>, from index \<open>i\<close> on.\<close>

fun parse_tokens ::
  "(string \<Rightarrow> 'v option) \<Rightarrow> 'v MathEvaluator \<Rightarrow> string list \<Rightarrow> nat \<Rightarrow> string list \<Rightarrow>
   string list \<times> string list \<Rightarrow> error + string list \<times> string list" where
  "parse_tokens flt ev substr i [] stacks = Inr stacks"
| "parse_tokens flt ev substr i (string # rest) stacks =
     (case parse_token flt ev substr i string stacks of
        Inl e \<Rightarrow> Inl e
      | Inr stacks' \<Rightarrow> parse_tokens flt ev substr (Suc i) rest stacks')"

text \<open>The final loop \<open>while opt_stack\<close>.\<close>

fun pop_remaining :: "string list \<Rightarrow> string list \<Rightarrow> error + string list" where
  "pop_remaining [] val_stack = Inr val_stack"
| "pop_remaining (opt_top # opt_stack) val_stack =
     (if opt_top = ''('' then Inl MismatchedOpen
      else pop_remaining opt_stack (val_stack @ [opt_top]))"

definition parse ::
  "(string \<Rightarrow> 'v option) \<Rightarrow> 'v MathEvaluator \<Rightarrow> string list \<Rightarrow> string \<Rightarrow> error + string list" where
  "parse flt ev order expr =
     (case shuntyard_format_string flt order expr of
        Inl e \<Rightarrow> Inl e
      | Inr substr \<Rightarrow>
          (case parse_tokens flt ev substr 0 substr ([], []) of
             Inl e \<Rightarrow> Inl e
           | Inr (opt_stack, val_stack) \<Rightarrow> pop_remaining opt_stack val_stack))"

section \<open>Postfix evaluator (MathEvaluator.postfit_evaluate)\<close>

text \<open>
  The operator or function \<open>refer\<close> found under the token \<open>char\<close>: \<open>refer.n_var\<close> values are
  popped into \<open>temp\<close> (IndexError on the empty stack becomes the OperandException),
  \<open>temp\<close> is reversed, and the result of \<open>refer(*temp)\<close> is pushed.
\<close>

definition apply_symbol :: "string \<Rightarrow> 'v MathFunction \<Rightarrow> 'v list \<Rightarrow> error + 'v list" where
  "apply_symbol char refer vals =
     (if length vals < n_var refer then Inl (TooFewOperands char)
      else (let temp = take (n_var refer) vals
            in case call refer (rev temp) of
                 Inl e \<Rightarrow> Inl e
               | Inr r \<Rightarrow> Inr (r # drop (n_var refer) vals)))"

text \<open>The body of the loop \<open>for char in expr\<close>, on the stack \<open>values\<close>.\<close>

definition evaluate_token ::
  "(string \<Rightarrow> 'v option) \<Rightarrow> 'v MathEvaluator \<Rightarrow> string \<Rightarrow> 'v list \<Rightarrow> error + 'v list" where
  "evaluate_token flt ev char vals =
     (case operators ev char of
        Some opr \<Rightarrow> apply_symbol char (OperatorObject opr) vals
      | None \<Rightarrow>
          (case mfunctions ev char of
             Some func \<Rightarrow> apply_symbol char func vals
           | None \<Rightarrow>
               (case constants ev char of
                  Some c \<Rightarrow> Inr (const_value c # vals)
                | None \<Rightarrow>
                    (case flt char of
                       None \<Rightarrow> Inl (NonNumericValue char)
                     | Some x \<Rightarrow> Inr (x # vals)))))"

fun evaluate_tokens ::
  "(string \<Rightarrow> 'v option) \<Rightarrow> 'v MathEvaluator \<Rightarrow> string list \<Rightarrow> 'v list \<Rightarrow> error + 'v list" where
  "evaluate_tokens flt ev [] vals = Inr vals"
| "evaluate_tokens flt ev (char # expr) vals =
     (case evaluate_token flt ev char vals of
        Inl e \<Rightarrow> Inl e
      | Inr vals' \<Rightarrow> evaluate_tokens flt ev expr vals')"

definition postfit_evaluate ::
  "(string \<Rightarrow> 'v::zero option) \<Rightarrow> 'v MathEvaluator \<Rightarrow> string list \<Rightarrow> error + 'v" where
  "postfit_evaluate flt ev expr =
     (if expr = [] then Inr 0
      else (case evaluate_tokens flt ev expr [] of
              Inl e \<Rightarrow> Inl e
            | Inr vals \<Rightarrow>
                (if length vals \<noteq> 1 then Inl TooManyOperands else Inr (hd vals))))"

section \<open>The calculator's symbols and evaluators (main_tasks.py)\<close>

text \<open>
  The numbers of the calculator are Python floats and ints. Here they are the real
  numbers they denote: rounding, overflow, \<open>inf\<close> and \<open>nan\<close> are not modelled, and the
  functions of \<open>operator\<close> and \<open>numpy\<close> are the functions on the reals of the same name.
  Where Python leaves the reals (\<open>opt.pow\<close> of a negative base to an exponent that is no
  integer is a complex number, numpy's division by zero is \<open>inf\<close>) the value is the one
  HOL gives. A Python function of one or two positional parameters, called with a list
  of arguments, is \<open>lift1\<close> or \<open>lift2\<close> of the function.
\<close>

definition lift1 :: "('v \<Rightarrow> error + 'v) \<Rightarrow> 'v operation" where
  "lift1 f args = (case args of [x] \<Rightarrow> f x | _ \<Rightarrow> Inl ArgumentCount)"

definition lift2 :: "('v \<Rightarrow> 'v \<Rightarrow> error + 'v) \<Rightarrow> 'v operation" where
  "lift2 f args = (case args of [x, y] \<Rightarrow> f x y | _ \<Rightarrow> Inl ArgumentCount)"

text \<open>
  \<open>_factorial\<close>: \<open>num.is_integer()\<close>, then the loop \<open>for i in range(2, num + 1)\<close> over
  the integers from 2 to \<open>num\<close>.
\<close>

definition factorial :: "real \<Rightarrow> error + real" where
  "factorial num =
     (if num \<noteq> of_int \<lfloor>num\<rfloor> then Inl NotInteger
      else Inr (of_int (fold (\<lambda>i result. result * i) [2..\<lfloor>num\<rfloor>] 1)))"

definition opt_truediv :: "real \<Rightarrow> real \<Rightarrow> error + real" where
  "opt_truediv x y = (if y = 0 then Inl DivisionByZero else Inr (x / y))"

definition opt_pow :: "real \<Rightarrow> real \<Rightarrow> error + real" where
  "opt_pow x y =
     (if x = 0 \<and> y < 0 then Inl DivisionByZero
      else Inr (if y = of_int \<lfloor>y\<rfloor> then x powi \<lfloor>y\<rfloor> else x powr y))"

definition FACTORIAL :: "real Operator" where
  "FACTORIAL = UnaryOperator ''!'' (lift1 factorial) LEFT"

definition ADDITION :: "real Operator" where
  "ADDITION = BinaryOperator ''+'' (lift2 (\<lambda>x y. Inr (x + y))) 0 SPECIAL"

definition SUBTRACTION :: "real Operator" where
  "SUBTRACTION = BinaryOperator ''-'' (lift2 (\<lambda>x y. Inr (x - y))) 0 SPECIAL"

definition MULTIPLICATION :: "real Operator" where
  "MULTIPLICATION = BinaryOperator ''*'' (lift2 (\<lambda>x y. Inr (x * y))) 1 SPECIAL"

definition DIVISION :: "real Operator" where
  "DIVISION = BinaryOperator ''/'' (lift2 opt_truediv) 1 LEFT"

definition EXPONENTIATION :: "real Operator" where
  "EXPONENTIATION = BinaryOperator ''^'' (lift2 opt_pow) 2 RIGHT"

definition SIN :: "real MathFunction" where
  "SIN = SingleVarMathFunction ''sin'' (lift1 (\<lambda>x. Inr (sin x)))"

definition COS :: "real MathFunction" where
  "COS = SingleVarMathFunction ''cos'' (lift1 (\<lambda>x. Inr (cos x)))"

definition TAN :: "real MathFunction" where
  "TAN = SingleVarMathFunction ''tan'' (lift1 (\<lambda>x. Inr (tan x)))"

definition COT :: "real MathFunction" where
  "COT = SingleVarMathFunction ''cot'' (lift1 (\<lambda>x. Inr (1 / tan x)))"

definition PI :: "real MathConstant" where
  "PI = \<lparr>const_token = ''pi'', const_value = pi\<rparr>"

definition EULER :: "real MathConstant" where
  "EULER = \<lparr>const_token = ''e'', const_value = exp 1\<rparr>"

definition OPERATORS :: "real MathFunction list" where
  "OPERATORS = map OperatorObject
     [ADDITION, SUBTRACTION, MULTIPLICATION, DIVISION, EXPONENTIATION, FACTORIAL]"

definition FUNCTIONS :: "real MathFunction list" where
  "FUNCTIONS = [SIN, COS, TAN, COT]"

definition CONSTANTS :: "real MathConstant list" where
  "CONSTANTS = [PI, EULER]"

text \<open>
  \<open>my_eval = MathEvaluator(OPERATORS, FUNCTIONS, CONSTANTS, MULTIPLICATION.token)\<close>.
  The constructor does not raise (lemma \<open>my_eval_constructed\<close>).
\<close>

definition my_eval :: "real MathEvaluator" where
  "my_eval = projr (init_evaluator OPERATORS FUNCTIONS CONSTANTS (op_token MULTIPLICATION))"

text \<open>
  \<open>AddEdit.__init__\<close>: the dummy variables \<open>x_1\<close> to \<open>x_9\<close> and the evaluator that parses
  the body of a new function.
\<close>

definition dummy_variables :: "real MathConstant list" where
  "dummy_variables =
     map (\<lambda>i. \<lparr>const_token = ''x_'' @ [char_of (48 + (i + 1))], const_value = 0\<rparr>) [0..<9]"

definition func_eval :: "real MathEvaluator" where
  "func_eval =
     projr (init_evaluator OPERATORS FUNCTIONS (CONSTANTS @ dummy_variables)
              (op_token MULTIPLICATION))"

text \<open>
  \<open>func_operation(*args, expression)\<close>, the operation of a function added by
  \<open>add_function\<close>. \<open>expression\<close> is the list \<open>func_expr\<close> that the function object holds;
  the loop assigns to its elements, so the function returns the list as the call leaves
  it together with the outcome, and the next call of the same function starts from
  that list. \<open>int(token[-1])\<close> is \<open>py_int_char\<close>, \<open>args[k]\<close> is \<open>py_index\<close> (a negative index
  counts from the end), \<open>str\<close> is the parameter \<open>str_of\<close>. The evaluator \<open>ev\<close> is the
  global \<open>my_eval\<close>.
\<close>

definition py_int_char :: "char \<Rightarrow> error + int" where
  "py_int_char c =
     (let n = of_char c :: nat
      in if 48 \<le> n \<and> n \<le> 57 then Inr (int n - 48) else Inl (InvalidLiteral [c]))"

definition py_index :: "'a list \<Rightarrow> int \<Rightarrow> error + 'a" where
  "py_index xs k =
     (let n = int (length xs); j = (if k < 0 then k + n else k)
      in if 0 \<le> j \<and> j < n then Inr (xs ! nat j) else Inl OutOfRange)"

fun substitute_arguments ::
  "('v \<Rightarrow> string) \<Rightarrow> 'v list \<Rightarrow> string list \<Rightarrow> error option \<times> string list" where
  "substitute_arguments str_of args [] = (None, [])"
| "substitute_arguments str_of args (tok # expression) =
     (if take 2 tok = ''x_''
      then (case py_int_char (last tok) of
              Inl e \<Rightarrow> (Some e, tok # expression)
            | Inr k \<Rightarrow>
                (case py_index args (k - 1) of
                   Inl e \<Rightarrow> (Some e, tok # expression)
                 | Inr a \<Rightarrow>
                     (case substitute_arguments str_of args expression of
                        (r, expression') \<Rightarrow> (r, str_of a # expression'))))
      else (case substitute_arguments str_of args expression of
              (r, expression') \<Rightarrow> (r, tok # expression')))"

definition func_operation ::
  "('v \<Rightarrow> string) \<Rightarrow> (string \<Rightarrow> 'v::zero option) \<Rightarrow> 'v MathEvaluator \<Rightarrow> 'v list \<Rightarrow>
   string list \<Rightarrow> (error + 'v) \<times> string list" where
  "func_operation str_of flt ev args expression =
     (case substitute_arguments str_of args expression of
        (Some e, expression') \<Rightarrow> (Inl e, expression')
      | (None, expression') \<Rightarrow> (postfit_evaluate flt ev expression', expression'))"

section \<open>Predicates and example inputs of the properties\<close>

text \<open>The grouping tokens, and an evaluator that registers none of them.\<close>

definition grouping :: "string \<Rightarrow> bool" where
  "grouping s = (s = ''('' \<or> s = '')'' \<or> s = '','')"

definition no_grouping_symbols :: "(string \<Rightarrow> 'v option) \<Rightarrow> 'v MathEvaluator \<Rightarrow> bool" where
  "no_grouping_symbols flt ev =
     (list_all (\<lambda>s. flt s = None \<and> operators ev s = None \<and> mfunctions ev s = None
                   \<and> constants ev s = None) [''('', '')'', '','']
      \<and> (case implicit_operation ev of None \<Rightarrow> True | Some opr \<Rightarrow> \<not> grouping (op_token opr)))"

text \<open>
  The invariant of the stacks of \<open>parse\<close>: the operator stack holds neither \<open>')'\<close> nor
  \<open>','\<close>, the output holds no grouping token.
\<close>

definition stacks_ok :: "string list \<Rightarrow> string list \<Rightarrow> bool" where
  "stacks_ok opt_stack val_stack =
     (list_all (\<lambda>x. x \<noteq> '')'' \<and> x \<noteq> '','') opt_stack
      \<and> list_all (\<lambda>x. \<not> grouping x) val_stack)"

text \<open>
  Example inputs. \<open>float_example\<close> and \<open>str_example\<close> agree with Python's \<open>float\<close> and \<open>str\<close>
  on the literals and numbers of the examples; the two lists are iteration orders of
  the token sets of \<open>my_eval\<close> and \<open>func_eval\<close>.
\<close>

definition float_example :: "string \<Rightarrow> real option" where
  "float_example s =
     (if s = ''2'' then Some 2 else if s = ''3'' \<or> s = ''3.0'' then Some 3
      else if s = ''4.0'' then Some 4 else None)"

definition str_example :: "real \<Rightarrow> string" where
  "str_example x = (if x = 3 then ''3.0'' else if x = 4 then ''4.0'' else ''1.0'')"

definition enumeration_example :: "string list" where
  "enumeration_example =
     [''+'', ''-'', ''*'', ''/'', ''^'', ''!'', ''sin'', ''cos'', ''tan'', ''cot'', ''pi'', ''e'']"

definition func_enumeration_example :: "string list" where
  "func_enumeration_example =
     [''+'', ''-'', ''*'', ''/'', ''^'', ''!'', ''sin'', ''cos'', ''tan'', ''cot'', ''pi'', ''e'',
      ''x_1'', ''x_2'', ''x_3'', ''x_4'', ''x_5'', ''x_6'', ''x_7'', ''x_8'', ''x_9'']"

text \<open>
  A second function under the token \<open>sin\<close> (of two variables), and a function under
  the token \<open>+\<close>.
\<close>

definition sin_replacement :: "real MathFunction" where
  "sin_replacement = NVarMathFunction ''sin'' (lift2 (\<lambda>x y. Inr (sin x * y))) 2"

definition plus_function :: "real MathFunction" where
  "plus_function = NVarMathFunction ''+'' (lift2 (\<lambda>x y. Inr (x + y))) 2"

text \<open>A right-associative binary operator of the precedence of \<open>DIVISION\<close>.\<close>

definition right_power :: "real Operator" where
  "right_power = BinaryOperator ''^'' (lift2 opt_pow) 1 RIGHT"

text \<open>An evaluator whose only symbol is a constant under the token \<open>(\<close>.\<close>

definition paren_evaluator :: "real MathEvaluator" where
  "paren_evaluator =
     snd (add_constant \<lparr>const_token = ''('', const_value = 1\<rparr> empty_evaluator)"

text \<open>
  A left-associative binary operator of precedence 5 under the token \<open>(\<close>, and \<open>my_eval\<close>
  with this operator added.
\<close>

definition paren_operator :: "real Operator" where
  "paren_operator = BinaryOperator ''('' (lift2 (\<lambda>x y. Inr (x * y))) 5 LEFT"

definition paren_operator_evaluator :: "real MathEvaluator" where
  "paren_operator_evaluator = snd (add_operator (OperatorObject paren_operator) my_eval)"

text \<open>
  \<open>my_eval\<close> with a constant added whose token, \<open>3\<close>, is a string that \<open>float\<close> reads, and
  an iteration order of its token set.
\<close>

definition numeral_constant_evaluator :: "real MathEvaluator" where
  "numeral_constant_evaluator =
     snd (add_constant \<lparr>const_token = ''3'', const_value = 3\<rparr> my_eval)"

definition numeral_enumeration_example :: "string list" where
  "numeral_enumeration_example = enumeration_example @ [''3'']"

text \<open>
  The function \<open>g\<close> of one variable that \<open>add_function\<close> of main_tasks.py builds from the
  body \<open>x_1 +\<close> (the template \<open>['x_1', '+']\<close>), as its first call behaves, and \<open>my_eval\<close> with
  this function added.
\<close>

definition underflowing_function :: "real MathFunction" where
  "underflowing_function =
     NVarMathFunction ''g''
       (\<lambda>args. fst (func_operation str_example float_example my_eval args [''x_1'', ''+''])) 1"

definition underflow_evaluator :: "real MathEvaluator" where
  "underflow_evaluator = snd (add_function underflowing_function my_eval)"

section \<open>The evaluators of main_tasks.py\<close>

lemma my_eval_eq:
  "my_eval = \<lparr>operators = [''+'' \<mapsto> ADDITION, ''-'' \<mapsto> SUBTRACTION, ''*'' \<mapsto> MULTIPLICATION,
       ''/'' \<mapsto> DIVISION, ''^'' \<mapsto> EXPONENTIATION, ''!'' \<mapsto> FACTORIAL],
     mfunctions = [''sin'' \<mapsto> SIN, ''cos'' \<mapsto> COS, ''tan'' \<mapsto> TAN, ''cot'' \<mapsto> COT],
     constants = [''pi'' \<mapsto> PI, ''e'' \<mapsto> EULER],
     implicit_operation = Some MULTIPLICATION\<rparr>"
  by (simp add: my_eval_def init_evaluator_def register_all_def OPERATORS_def FUNCTIONS_def
      CONSTANTS_def add_operator_def add_function_def add_constant_def empty_evaluator_def
      ADDITION_def SUBTRACTION_def MULTIPLICATION_def DIVISION_def EXPONENTIATION_def
      FACTORIAL_def SIN_def COS_def TAN_def COT_def PI_def EULER_def)

lemma my_eval_constructed:
  "init_evaluator OPERATORS FUNCTIONS CONSTANTS (op_token MULTIPLICATION) = Inr my_eval"
  by (simp add: my_eval_def init_evaluator_def register_all_def OPERATORS_def FUNCTIONS_def
      CONSTANTS_def add_operator_def add_function_def add_constant_def empty_evaluator_def
      ADDITION_def SUBTRACTION_def MULTIPLICATION_def DIVISION_def EXPONENTIATION_def
      FACTORIAL_def SIN_def COS_def TAN_def COT_def PI_def EULER_def)

lemma recognised_tokens_my_eval:
  "recognised_tokens my_eval =
     {''+'', ''-'', ''*'', ''/'', ''^'', ''!'', ''sin'', ''cos'', ''tan'', ''cot'', ''pi'', ''e''}"
  unfolding recognised_tokens_def my_eval_eq by (simp add: insert_commute)

lemma enumeration_example_ok: "enumerates enumeration_example my_eval"
  by (simp add: enumerates_def recognised_tokens_my_eval enumeration_example_def insert_commute)

lemma dummy_variables_eq:
  "dummy_variables = map (\<lambda>t. \<lparr>const_token = t, const_value = 0\<rparr>)
     [''x_1'', ''x_2'', ''x_3'', ''x_4'', ''x_5'', ''x_6'', ''x_7'', ''x_8'', ''x_9'']"
  unfolding dummy_variables_def by code_simp

lemma func_eval_eq:
  "func_eval = \<lparr>operators = [''+'' \<mapsto> ADDITION, ''-'' \<mapsto> SUBTRACTION, ''*'' \<mapsto> MULTIPLICATION,
       ''/'' \<mapsto> DIVISION, ''^'' \<mapsto> EXPONENTIATION, ''!'' \<mapsto> FACTORIAL],
     mfunctions = [''sin'' \<mapsto> SIN, ''cos'' \<mapsto> COS, ''tan'' \<mapsto> TAN, ''cot'' \<mapsto> COT],
     constants = [''pi'' \<mapsto> PI, ''e'' \<mapsto> EULER,
       ''x_1'' \<mapsto> \<lparr>const_token = ''x_1'', const_value = 0\<rparr>,
       ''x_2'' \<mapsto> \<lparr>const_token = ''x_2'', const_value = 0\<rparr>,
       ''x_3'' \<mapsto> \<lparr>const_token = ''x_3'', const_value = 0\<rparr>,
       ''x_4'' \<mapsto> \<lparr>const_token = ''x_4'', const_value = 0\<rparr>,
       ''x_5'' \<mapsto> \<lparr>const_token = ''x_5'', const_value = 0\<rparr>,
       ''x_6'' \<mapsto> \<lparr>const_token = ''x_6'', const_value = 0\<rparr>,
       ''x_7'' \<mapsto> \<lparr>const_token = ''x_7'', const_value = 0\<rparr>,
       ''x_8'' \<mapsto> \<lparr>const_token = ''x_8'', const_value = 0\<rparr>,
       ''x_9'' \<mapsto> \<lparr>const_token = ''x_9'', const_value = 0\<rparr>],
     implicit_operation = Some MULTIPLICATION\<rparr>"
  by (simp add: func_eval_def dummy_variables_eq init_evaluator_def register_all_def
      OPERATORS_def FUNCTIONS_def CONSTANTS_def add_operator_def add_function_def
      add_constant_def empty_evaluator_def
      ADDITION_def SUBTRACTION_def MULTIPLICATION_def DIVISION_def EXPONENTIATION_def
      FACTORIAL_def SIN_def COS_def TAN_def COT_def PI_def EULER_def)

section \<open>Symbol registry\<close>

text \<open>
  C1. \<open>add_function\<close> looks the token up in the operators, not in the functions. On
  \<open>my_eval\<close>, where \<open>sin\<close> is a function and \<open>+\<close> is an operator: adding a second function
  under the token \<open>sin\<close> does not raise and replaces the registered one; adding a function
  under the token \<open>+\<close>, which no function has, raises the ValueError.
\<close>

theorem add_function_checks_operator_map:
  "mfunctions my_eval ''sin'' = Some SIN
   \<and> add_function sin_replacement my_eval
       = (Inr (), my_eval\<lparr>mfunctions := (mfunctions my_eval)(''sin'' \<mapsto> sin_replacement)\<rparr>)
   \<and> mfunctions (snd (add_function sin_replacement my_eval)) ''sin'' = Some sin_replacement
   \<and> sin_replacement \<noteq> SIN
   \<and> mfunctions my_eval ''+'' = None
   \<and> add_function plus_function my_eval = (Inl (FunctionExists ''+''), my_eval)"
  by (simp add: add_function_def my_eval_eq sin_replacement_def plus_function_def SIN_def)

text \<open>
  C7. When a constant is registered under a token, \<open>add_constant\<close> of a constant with
  the same token raises the ValueError "Constant token ... already exists", the
  evaluator after the call is the evaluator before it, and the token still resolves
  to the first constant.
\<close>

theorem add_constant_duplicate_fails:
  "constants ev t = Some c \<Longrightarrow> const_token c' = t \<Longrightarrow>
   add_constant c' ev = (Inl (ConstantExists t), ev)
   \<and> py_class (ConstantExists t) = ValueError
   \<and> constants (snd (add_constant c' ev)) t = Some c"
  by (simp add: add_constant_def)

text \<open>The witness: a second constant \<open>pi\<close> on \<open>my_eval\<close>.\<close>

theorem add_constant_duplicate_fails_witness:
  "constants my_eval ''pi'' = Some PI
   \<and> const_token \<lparr>const_token = ''pi'', const_value = 3\<rparr> = ''pi''
   \<and> add_constant \<lparr>const_token = ''pi'', const_value = 3\<rparr> my_eval
       = (Inl (ConstantExists ''pi''), my_eval)
   \<and> constants (snd (add_constant \<lparr>const_token = ''pi'', const_value = 3\<rparr> my_eval)) ''pi''
       = Some PI"
  using add_constant_duplicate_fails
    [of my_eval "''pi''" PI "\<lparr>const_token = ''pi'', const_value = 3\<rparr>"]
  by (simp add: my_eval_eq)

text \<open>
  C9. When the given symbols register without an exception and the token of the
  implicit operation is no operator's token, the constructor returns the evaluator
  with no implicit operation, while the setter of \<open>implicit_operation\<close>, called on that
  evaluator with the same token, raises the OperatorException and changes nothing.
\<close>

theorem unknown_implicit_token_init_and_setter:
  "register_all ops funcs consts = Inr ev \<Longrightarrow> operators ev t = None \<Longrightarrow>
   init_evaluator ops funcs consts t = Inr (ev\<lparr>implicit_operation := None\<rparr>)
   \<and> set_implicit_operation t (ev\<lparr>implicit_operation := None\<rparr>)
       = (Inl (NoSuchOperator t), ev\<lparr>implicit_operation := None\<rparr>)
   \<and> py_class (NoSuchOperator t) = OperatorException"
  by (simp add: init_evaluator_def set_implicit_operation_def)

text \<open>The witness: the symbols of the calculator and the token \<open>%\<close>.\<close>

theorem unknown_implicit_token_init_and_setter_witness:
  "register_all OPERATORS FUNCTIONS CONSTANTS = Inr (my_eval\<lparr>implicit_operation := None\<rparr>)
   \<and> operators (my_eval\<lparr>implicit_operation := None\<rparr>) ''%'' = None
   \<and> init_evaluator OPERATORS FUNCTIONS CONSTANTS ''%''
       = Inr (my_eval\<lparr>implicit_operation := None\<rparr>)
   \<and> set_implicit_operation ''%'' (my_eval\<lparr>implicit_operation := None\<rparr>)
       = (Inl (NoSuchOperator ''%''), my_eval\<lparr>implicit_operation := None\<rparr>)"
proof -
  have r: "register_all OPERATORS FUNCTIONS CONSTANTS
             = Inr (my_eval\<lparr>implicit_operation := None\<rparr>)"
    by (simp add: my_eval_eq register_all_def OPERATORS_def FUNCTIONS_def
        CONSTANTS_def add_operator_def add_function_def add_constant_def empty_evaluator_def
        ADDITION_def SUBTRACTION_def MULTIPLICATION_def DIVISION_def EXPONENTIATION_def
        FACTORIAL_def SIN_def COS_def TAN_def COT_def PI_def EULER_def)
  have o: "operators (my_eval\<lparr>implicit_operation := None\<rparr>) ''%'' = None"
    by (simp add: my_eval_eq)
  from unknown_implicit_token_init_and_setter[OF r o] r o show ?thesis by simp
qed

section \<open>Shunting-yard converter\<close>

text \<open>
  C2 (as the code has it). For a binary incoming operator and a stack top that is the
  token of a binary operator, the loop of the operator branch pops the top to the
  output exactly when the top is not the token \<open>(\<close> (the loop's guard) and the top's
  precedence is greater than the incoming operator's, or the two are equal and the
  INCOMING operator's associativity is LEFT or SPECIAL (\<open>operator_condition\<close> reads
  \<open>operator_1.associativity\<close>, and \<open>operator_1\<close> is the incoming operator).
\<close>

theorem pop_condition_binary:
  "operators ev opt_top = Some (BinaryOperator t2 f2 p2 a2) \<Longrightarrow>
   pop_operators ev (BinaryOperator t1 f1 p1 a1) (opt_top # opt_stack) val_stack =
     (if opt_top \<noteq> ''('' \<and> (p2 > p1 \<or> (p2 = p1 \<and> (a1 = LEFT \<or> a1 = SPECIAL)))
      then pop_operators ev (BinaryOperator t1 f1 p1 a1) opt_stack (val_stack @ [opt_top])
      else Inr (opt_top # opt_stack, val_stack))"
  by (auto simp: Let_def)

text \<open>
  The witness: on \<open>my_eval\<close>, an incoming \<open>/\<close> pops \<open>*\<close> from the stack (equal precedence,
  the incoming operator is left-associative) and stops at \<open>+\<close>.
\<close>

theorem pop_condition_binary_witness:
  "operators my_eval ''*'' = Some (BinaryOperator ''*'' (lift2 (\<lambda>x y. Inr (x * y))) 1 SPECIAL)
   \<and> pop_operators my_eval (BinaryOperator ''/'' (lift2 opt_truediv) 1 LEFT)
        [''*'', ''+''] [''1'', ''2'', ''3'']
       = Inr ([''+''], [''1'', ''2'', ''3'', ''*''])"
  using pop_condition_binary[of my_eval "''*''" "''*''" "lift2 (\<lambda>x y. Inr (x * y))" 1 SPECIAL
      "''/''" "lift2 opt_truediv" 1 LEFT "[''+'']" "[''1'', ''2'', ''3'']"]
  by (simp add: my_eval_eq MULTIPLICATION_def ADDITION_def)

text \<open>
  C2 as stated fails, twice. With the right-associative \<open>right_power\<close> incoming and
  \<open>DIVISION\<close> (left-associative, the same precedence 1) on top of the stack, the claim's
  condition holds (equal precedences, the stack top is LEFT), and the code does not
  pop. With the binary operator \<open>paren_operator\<close> (precedence 5) registered under the
  token \<open>(\<close> on top of the stack and \<open>ADDITION\<close> (precedence 0) incoming, the claim's
  condition holds (the top's precedence is greater), and the loop's guard keeps the
  top on the stack.
\<close>

theorem pop_condition_top_associativity_counterexample:
  "\<not> (operator_condition right_power DIVISION \<longleftrightarrow>
        (the (precedence DIVISION) > the (precedence right_power)
         \<or> (the (precedence DIVISION) = the (precedence right_power)
            \<and> (associativity DIVISION = LEFT \<or> associativity DIVISION = SPECIAL))))
   \<and> operators my_eval ''/'' = Some DIVISION
   \<and> pop_operators my_eval right_power [''/''] [] = Inr ([''/''], [])
   \<and> operators paren_operator_evaluator ''('' = Some paren_operator
   \<and> the (precedence paren_operator) > the (precedence ADDITION)
   \<and> pop_operators paren_operator_evaluator ADDITION [''(''] [] = Inr ([''(''], [])"
  by (simp add: my_eval_eq right_power_def DIVISION_def paren_operator_evaluator_def
      paren_operator_def add_operator_def ADDITION_def)

lemma no_grouping_symbolsD:
  assumes "no_grouping_symbols flt ev" "grouping s"
  shows "flt s = None" "operators ev s = None" "mfunctions ev s = None" "constants ev s = None"
  using assms by (auto simp: no_grouping_symbols_def grouping_def)

lemma no_grouping_implicit:
  "no_grouping_symbols flt ev \<Longrightarrow> implicit_operation ev = Some opr \<Longrightarrow> \<not> grouping (op_token opr)"
  by (simp add: no_grouping_symbols_def)

lemma stacks_ok_pop:
  "stacks_ok (x # os) vs \<Longrightarrow> x \<noteq> ''('' \<Longrightarrow> stacks_ok os (vs @ [x])"
  by (auto simp: stacks_ok_def grouping_def)

lemma pop_operators_ok:
  "stacks_ok os vs \<Longrightarrow> pop_operators ev o1 os vs = Inr (os', vs') \<Longrightarrow> stacks_ok os' vs'"
proof (induction os arbitrary: vs)
  case Nil
  then show ?case by simp
next
  case (Cons x os)
  show ?case
  proof (cases "x = ''(''")
    case True
    with Cons.prems show ?thesis by simp
  next
    case False
    note nx = this
    show ?thesis
    proof (cases "operators ev x")
      case None
      with Cons.prems nx show ?thesis by simp
    next
      case (Some o2)
      show ?thesis
      proof (cases "operator_condition o1 o2")
        case True
        with Cons.prems nx Some have "pop_operators ev o1 os (vs @ [x]) = Inr (os', vs')" by simp
        moreover have "stacks_ok os (vs @ [x])" using Cons.prems(1) nx by (rule stacks_ok_pop)
        ultimately show ?thesis by (rule Cons.IH[rotated])
      next
        case False
        with Cons.prems nx Some show ?thesis by simp
      qed
    qed
  qed
qed

lemma pop_until_paren_ok:
  "stacks_ok os vs \<Longrightarrow> pop_until_paren err os vs = Inr (os', vs') \<Longrightarrow>
   stacks_ok os' vs' \<and> stacks_ok (tl os') vs'"
proof (induction os arbitrary: vs)
  case Nil
  then show ?case by simp
next
  case (Cons x os)
  show ?case
  proof (cases "x = ''(''")
    case True
    with Cons.prems show ?thesis by (auto simp: stacks_ok_def)
  next
    case False
    with Cons.prems have "pop_until_paren err os (vs @ [x]) = Inr (os', vs')" by simp
    moreover have "stacks_ok os (vs @ [x])" using Cons.prems(1) False by (rule stacks_ok_pop)
    ultimately show ?thesis by (rule Cons.IH[rotated])
  qed
qed

lemma check_implicit_operation_ok:
  assumes "no_grouping_symbols flt ev" "stacks_ok os vs"
  shows "stacks_ok (check_implicit_operation flt ev substr i os) vs"
  using assms no_grouping_implicit[OF assms(1)]
  by (auto simp: check_implicit_operation_def stacks_ok_def grouping_def split: option.splits)

lemma stacks_ok_push:
  "stacks_ok os vs \<Longrightarrow> \<not> grouping s \<Longrightarrow> stacks_ok (s # os) vs"
  by (auto simp: stacks_ok_def grouping_def)

lemma stacks_ok_out:
  "stacks_ok os vs \<Longrightarrow> \<not> grouping s \<Longrightarrow> stacks_ok os (vs @ [s])"
  by (auto simp: stacks_ok_def)

lemma parse_token_ok:
  assumes g: "no_grouping_symbols flt ev" and ok: "stacks_ok os vs"
    and step: "parse_token flt ev substr i s (os, vs) = Inr (os', vs')"
  shows "stacks_ok os' vs'"
proof -
  note D = no_grouping_symbolsD[OF g]
  consider (num) "is_numeric flt s"
    | (const) "\<not> is_numeric flt s" "constants ev s \<noteq> None"
    | (func) "\<not> is_numeric flt s" "constants ev s = None" "mfunctions ev s \<noteq> None"
    | (oper) o1 where "\<not> is_numeric flt s" "constants ev s = None" "mfunctions ev s = None"
        "operators ev s = Some o1"
    | (other) "\<not> is_numeric flt s" "constants ev s = None" "mfunctions ev s = None"
        "operators ev s = None"
    by (cases "operators ev s") auto
  then show ?thesis
  proof cases
    case num
    then have "\<not> grouping s" using D(1)[of s] by (auto simp: is_numeric_def)
    with num step ok show ?thesis by (auto simp: parse_token_def intro: stacks_ok_out)
  next
    case const
    then have ng: "\<not> grouping s" using D(4)[of s] by auto
    from const step have "os' = check_implicit_operation flt ev substr i os" "vs' = vs @ [s]"
      by (auto simp: parse_token_def)
    with check_implicit_operation_ok[OF g ok] ng show ?thesis by (auto intro: stacks_ok_out)
  next
    case func
    then have ng: "\<not> grouping s" using D(3)[of s] by auto
    from func step have "os' = s # check_implicit_operation flt ev substr i os" "vs' = vs"
      by (auto simp: parse_token_def)
    with check_implicit_operation_ok[OF g ok] ng show ?thesis by (auto intro: stacks_ok_push)
  next
    case oper
    then have ng: "\<not> grouping s" using D(2)[of s] by auto
    from oper step obtain os1 where p: "pop_operators ev o1 os vs = Inr (os1, vs')" and "os' = s # os1"
      by (auto simp: parse_token_def split: sum.splits)
    with pop_operators_ok[OF ok p] ng show ?thesis by (auto intro: stacks_ok_push)
  next
    case other
    consider (comma) "s = '',''" | (lpar) "s = ''(''" | (rpar) "s = '')''"
      | (bad) "s \<noteq> '',''" "s \<noteq> ''(''" "s \<noteq> '')''" by blast
    then show ?thesis
    proof cases
      case comma
      with other step have "pop_until_paren MismatchedOpen os vs = Inr (os', vs')"
        by (simp add: parse_token_def)
      from pop_until_paren_ok[OF ok this] show ?thesis by simp
    next
      case lpar
      with other step ok show ?thesis by (auto simp: parse_token_def stacks_ok_def)
    next
      case rpar
      show ?thesis
      proof (cases "pop_until_paren MismatchedClose os vs")
        case (Inl e)
        with rpar other step show ?thesis by (simp add: parse_token_def)
      next
        case (Inr pr)
        obtain os1 vs1 where pr: "pr = (os1, vs1)" by (cases pr)
        note p = Inr[unfolded pr]
        from pop_until_paren_ok[OF ok p] have t: "stacks_ok (tl os1) vs1" by simp
        show ?thesis
        proof (cases "tl os1")
          case Nil
          with rpar other step p t show ?thesis by (simp add: parse_token_def)
        next
          case (Cons t rest)
          show ?thesis
          proof (cases "mfunctions ev t")
            case None
            with rpar other step p t Cons show ?thesis by (simp add: parse_token_def)
          next
            case (Some f)
            then have "\<not> grouping t" using D(3)[of t] by auto
            with rpar other step p t Cons Some show ?thesis
              by (auto simp: parse_token_def stacks_ok_def)
          qed
        qed
      qed
    next
      case bad
      with other step show ?thesis by (simp add: parse_token_def)
    qed
  qed
qed

lemma parse_tokens_ok:
  "no_grouping_symbols flt ev \<Longrightarrow> stacks_ok os vs \<Longrightarrow>
   parse_tokens flt ev substr i toks (os, vs) = Inr (os', vs') \<Longrightarrow> stacks_ok os' vs'"
proof (induction toks arbitrary: i os vs)
  case Nil
  then show ?case by simp
next
  case (Cons s toks)
  from Cons.prems(3) obtain os1 vs1 where
    st: "parse_token flt ev substr i s (os, vs) = Inr (os1, vs1)"
    and re: "parse_tokens flt ev substr (Suc i) toks (os1, vs1) = Inr (os', vs')"
    by (auto split: sum.splits)
  from parse_token_ok[OF Cons.prems(1,2) st] have "stacks_ok os1 vs1" .
  from Cons.IH[OF Cons.prems(1) this re] show ?case .
qed

lemma pop_remaining_ok:
  "stacks_ok os vs \<Longrightarrow> pop_remaining os vs = Inr out \<Longrightarrow> list_all (\<lambda>x. \<not> grouping x) out"
proof (induction os arbitrary: vs)
  case Nil
  then show ?case by (simp add: stacks_ok_def)
next
  case (Cons x os)
  from Cons.prems(2) have nx: "x \<noteq> ''(''" and r: "pop_remaining os (vs @ [x]) = Inr out"
    by (auto split: if_splits)
  from stacks_ok_pop[OF Cons.prems(1) nx] r show ?case by (rule Cons.IH)
qed


text \<open>
  C10 (as the code has it). When none of \<open>(\<close>, \<open>)\<close> and \<open>,\<close> is the token of a registered
  operator, function or constant or of the implicit operation, and \<open>float\<close> rejects the
  three strings, every list that \<open>parse\<close> returns contains none of them.
\<close>

theorem parse_output_has_no_grouping_token:
  assumes "no_grouping_symbols flt ev" and "parse flt ev order expr = Inr out"
  shows "''('' \<notin> set out \<and> '')'' \<notin> set out \<and> '','' \<notin> set out"
proof -
  from assms(2) obtain substr os vs where
    p: "parse_tokens flt ev substr 0 substr ([], []) = Inr (os, vs)"
    and r: "pop_remaining os vs = Inr out"
    by (auto simp: parse_def split: sum.splits)
  have "stacks_ok [] []" by (simp add: stacks_ok_def)
  from parse_tokens_ok[OF assms(1) this p] have "stacks_ok os vs" .
  from pop_remaining_ok[OF this r] show ?thesis
    by (auto simp: list_all_iff grouping_def)
qed

text \<open>The witness: \<open>parse("(2)")\<close> on \<open>my_eval\<close>.\<close>

theorem parse_output_has_no_grouping_token_witness:
  "no_grouping_symbols float_example my_eval
   \<and> parse float_example my_eval enumeration_example ''(2)'' = Inr [''2'']
   \<and> ''('' \<notin> set [''2''] \<and> '')'' \<notin> set [''2''] \<and> '','' \<notin> set [''2'']"
proof -
  have g: "no_grouping_symbols float_example my_eval"
    by (simp add: no_grouping_symbols_def float_example_def my_eval_eq grouping_def
        MULTIPLICATION_def)
  have p: "parse float_example my_eval enumeration_example ''(2)'' = Inr [''2'']"
    by (simp add: my_eval_eq parse_def shuntyard_format_string_def enumeration_example_def
        float_example_def str_split_def is_numeric_def parse_token_def is_space_def)
  from parse_output_has_no_grouping_token[OF g p] g p show ?thesis by simp
qed

text \<open>
  C10 as stated fails: the evaluator whose only symbol is a constant under the token
  \<open>(\<close> parses the expression \<open>(\<close> to the output \<open>['(']\<close>.
\<close>

theorem parse_output_grouping_token_counterexample:
  "enumerates [''(''] paren_evaluator
   \<and> parse float_example paren_evaluator [''(''] ''('' = Inr [''('']
   \<and> ''('' \<in> set [''('']"
  by (simp add: paren_evaluator_def add_constant_def empty_evaluator_def enumerates_def
      recognised_tokens_def parse_def shuntyard_format_string_def float_example_def
      str_split_def is_numeric_def parse_token_def is_space_def check_implicit_operation_def)

section \<open>Tokenizer\<close>

lemma isolate_tokens_absent:
  "\<forall>t\<in>set order. \<not> contains s t \<Longrightarrow> isolate_tokens order s = Inr s"
  by (induction order) auto

text \<open>
  When one token \<open>a\<close> occurs in the string and no other token occurs in the string or in
  the string with \<open>a\<close> isolated, the first loop isolates \<open>a\<close>, in whatever order the set is
  run through.
\<close>

lemma isolate_tokens_single:
  assumes "distinct order" "a \<in> set order" "a \<noteq> []" "contains s a"
    and "\<forall>t\<in>set order. t \<noteq> a \<longrightarrow>
           \<not> contains s t \<and> \<not> contains (join ('' '' @ a @ '' '') (split_at a [] s)) t"
  shows "isolate_tokens order s = Inr (join ('' '' @ a @ '' '') (split_at a [] s))"
  using assms
proof (induction order)
  case Nil
  then show ?case by simp
next
  case (Cons t order)
  show ?case
  proof (cases "t = a")
    case True
    with Cons.prems have "\<forall>u\<in>set order. \<not> contains (join ('' '' @ a @ '' '') (split_at a [] s)) u"
      by auto
    from isolate_tokens_absent[OF this] True Cons.prems(3,4) show ?thesis
      by (simp add: str_split_def)
  next
    case False
    with Cons.prems have "\<not> contains s t" "a \<in> set order" "distinct order" by auto
    with Cons.IH Cons.prems show ?thesis by simp
  qed
qed

lemma isolate_tokens_empty_string:
  "[] \<notin> set order \<Longrightarrow> isolate_tokens order [] = Inr []"
  by (rule isolate_tokens_absent) auto

lemma format_factorial_suffix:
  assumes "enumerates order my_eval"
  shows "shuntyard_format_string flt order ''3!'' = Inr [''3'', ''!'']"
proof -
  from assms have d: "distinct order" and s: "set order = recognised_tokens my_eval"
    by (simp_all add: enumerates_def)
  have "isolate_tokens order ''3!'' = Inr (join ('' '' @ ''!'' @ '' '') (split_at ''!'' [] ''3!''))"
    by (rule isolate_tokens_single[OF d]) (simp_all add: s recognised_tokens_my_eval)
  then show ?thesis
    by (simp add: shuntyard_format_string_def is_space_def s recognised_tokens_my_eval)
qed

lemma format_factorial_prefix:
  assumes "enumerates order my_eval"
  shows "shuntyard_format_string flt order ''!3'' = Inr [''!'', ''3'']"
proof -
  from assms have d: "distinct order" and s: "set order = recognised_tokens my_eval"
    by (simp_all add: enumerates_def)
  have "isolate_tokens order ''!3'' = Inr (join ('' '' @ ''!'' @ '' '') (split_at ''!'' [] ''!3''))"
    by (rule isolate_tokens_single[OF d]) (simp_all add: s recognised_tokens_my_eval)
  then show ?thesis
    by (simp add: shuntyard_format_string_def is_space_def s recognised_tokens_my_eval)
qed

lemma format_two_pi:
  assumes "enumerates order my_eval"
  shows "shuntyard_format_string flt order ''2pi'' = Inr [''2'', ''pi'']"
proof -
  from assms have d: "distinct order" and s: "set order = recognised_tokens my_eval"
    by (simp_all add: enumerates_def)
  have "isolate_tokens order ''2pi'' = Inr (join ('' '' @ ''pi'' @ '' '') (split_at ''pi'' [] ''2pi''))"
    by (rule isolate_tokens_single[OF d]) (simp_all add: s recognised_tokens_my_eval)
  then show ?thesis
    by (simp add: shuntyard_format_string_def is_space_def s recognised_tokens_my_eval)
qed

section \<open>Parsing and evaluating\<close>

text \<open>
  C8. For every evaluator (no token is the empty string: the constructors of the
  symbols reject it), \<open>parse("")\<close> returns the empty list, and \<open>postfit_evaluate([])\<close>
  returns 0.
\<close>

theorem parse_empty_expression:
  "[] \<notin> set order \<Longrightarrow>
   parse flt ev order [] = Inr [] \<and> postfit_evaluate flt ev [] = Inr 0"
  by (simp add: parse_def shuntyard_format_string_def isolate_tokens_empty_string
      postfit_evaluate_def)

text \<open>The witness: the empty expression on \<open>my_eval\<close>.\<close>

theorem parse_empty_expression_witness:
  "[] \<notin> set enumeration_example
   \<and> parse float_example my_eval enumeration_example [] = Inr []
   \<and> postfit_evaluate float_example my_eval [] = Inr 0"
  using parse_empty_expression[of enumeration_example float_example my_eval]
  by (simp add: enumeration_example_def)

lemma evaluate_three_factorial:
  "flt ''3'' = Some 3 \<Longrightarrow> postfit_evaluate flt my_eval [''3'', ''!''] = Inr 6"
  by (simp add: my_eval_eq postfit_evaluate_def evaluate_token_def apply_symbol_def call_def
     FACTORIAL_def lift1_def factorial_def)

text \<open>
  C4. On \<open>my_eval\<close>, where \<open>!\<close> is the left-associative unary FACTORIAL, for every iteration
  order of the token set and every \<open>float\<close> that reads \<open>3\<close> and rejects \<open>!\<close>:
  \<open>parse("3!")\<close> is \<open>['3', '!']\<close>, which evaluates to 6, and \<open>parse("!3")\<close> does not fail: it
  returns the same list \<open>['3', '!']\<close>.
\<close>

theorem prefix_factorial_is_accepted:
  assumes "enumerates order my_eval" "flt ''3'' = Some 3" "flt ''!'' = None"
  shows "parse flt my_eval order ''3!'' = Inr [''3'', ''!'']
       \<and> parse flt my_eval order ''!3'' = Inr [''3'', ''!'']
       \<and> postfit_evaluate flt my_eval [''3'', ''!''] = Inr 6"
proof -
  have 1: "parse flt my_eval order ''3!'' = Inr [''3'', ''!'']"
    using assms(2,3)
    by (simp add: parse_def format_factorial_suffix[OF assms(1)]
        is_numeric_def parse_token_def my_eval_eq)
  have 2: "parse flt my_eval order ''!3'' = Inr [''3'', ''!'']"
    using assms(2,3)
    by (simp add: parse_def format_factorial_prefix[OF assms(1)]
        is_numeric_def parse_token_def my_eval_eq)
  from 1 2 assms(2) show ?thesis by (simp add: evaluate_three_factorial)
qed

text \<open>The witness: one iteration order, and a \<open>float\<close> that reads \<open>3\<close> and rejects \<open>!\<close>.\<close>

theorem prefix_factorial_is_accepted_witness:
  "enumerates enumeration_example my_eval \<and> float_example ''3'' = Some 3
   \<and> float_example ''!'' = None
   \<and> parse float_example my_eval enumeration_example ''3!'' = Inr [''3'', ''!'']
   \<and> parse float_example my_eval enumeration_example ''!3'' = Inr [''3'', ''!'']
   \<and> postfit_evaluate float_example my_eval [''3'', ''!''] = Inr 6"
  using prefix_factorial_is_accepted[of enumeration_example float_example]
    enumeration_example_ok
  by (simp add: float_example_def)

text \<open>
  C5 (as the code has it). A token that is a constant's and that \<open>float\<close> does not read
  as a number (the numeric branch comes first), at an index other than 0, after a
  numeric token, with an implicit operation set: the implicit operation's token is pushed on
  the operator stack and the constant is appended to the output. On \<open>my_eval\<close>, whose
  implicit operation is \<open>*\<close>, for every iteration order of the token set and every \<open>float\<close>
  that reads \<open>2\<close> and rejects \<open>pi\<close>: \<open>parse("2pi")\<close> is \<open>['2', 'pi', '*']\<close>, which evaluates to
  \<open>2 * pi\<close>.
\<close>

theorem implicit_operation_before_constant:
  "(constants ev string \<noteq> None \<and> \<not> is_numeric flt string \<and> i \<noteq> 0
      \<and> is_numeric flt (substr ! (i - 1)) \<and> implicit_operation ev = Some opr
     \<longrightarrow> parse_token flt ev substr i string (opt_stack, val_stack)
          = Inr (op_token opr # opt_stack, val_stack @ [string]))
   \<and> (enumerates order my_eval \<and> flt' ''2'' = Some 2 \<and> flt' ''pi'' = None
     \<longrightarrow> parse flt' my_eval order ''2pi'' = Inr [''2'', ''pi'', ''*'']
        \<and> postfit_evaluate flt' my_eval [''2'', ''pi'', ''*''] = Inr (2 * pi))"
proof (intro conjI impI)
  assume "constants ev string \<noteq> None \<and> \<not> is_numeric flt string \<and> i \<noteq> 0
      \<and> is_numeric flt (substr ! (i - 1)) \<and> implicit_operation ev = Some opr"
  then show "parse_token flt ev substr i string (opt_stack, val_stack)
          = Inr (op_token opr # opt_stack, val_stack @ [string])"
    by (simp add: parse_token_def check_implicit_operation_def)
next
  assume a: "enumerates order my_eval \<and> flt' ''2'' = Some 2 \<and> flt' ''pi'' = None"
  then have e: "enumerates order my_eval" by simp
  show "parse flt' my_eval order ''2pi'' = Inr [''2'', ''pi'', ''*'']"
    using a
    by (simp add: parse_def format_two_pi[OF e]
        is_numeric_def parse_token_def my_eval_eq
        check_implicit_operation_def MULTIPLICATION_def)
  show "postfit_evaluate flt' my_eval [''2'', ''pi'', ''*''] = Inr (2 * pi)"
    using a
    by (simp add: my_eval_eq postfit_evaluate_def evaluate_token_def apply_symbol_def call_def
        MULTIPLICATION_def lift2_def PI_def)
qed

text \<open>The witness: the token \<open>pi\<close> at index 1 of \<open>['2', 'pi']\<close> on \<open>my_eval\<close>, and \<open>parse("2pi")\<close>.\<close>

theorem implicit_operation_before_constant_witness:
  "constants my_eval ''pi'' \<noteq> None \<and> \<not> is_numeric float_example ''pi'' \<and> (1::nat) \<noteq> 0
   \<and> is_numeric float_example ([''2'', ''pi''] ! (1 - 1))
   \<and> implicit_operation my_eval = Some MULTIPLICATION
   \<and> parse_token float_example my_eval [''2'', ''pi''] 1 ''pi'' ([], [''2''])
       = Inr ([''*''], [''2'', ''pi''])
   \<and> enumerates enumeration_example my_eval
   \<and> parse float_example my_eval enumeration_example ''2pi'' = Inr [''2'', ''pi'', ''*'']
   \<and> postfit_evaluate float_example my_eval [''2'', ''pi'', ''*''] = Inr (2 * pi)"
  using implicit_operation_before_constant[of my_eval "''pi''" float_example 1 "[''2'', ''pi'']"
      MULTIPLICATION "[]" "[''2'']" enumeration_example float_example]
    enumeration_example_ok
  by (simp add: float_example_def is_numeric_def my_eval_eq MULTIPLICATION_def)

text \<open>
  C5 as stated fails for a constant whose token \<open>float\<close> reads as a number (a decimal
  literal as here, or \<open>inf\<close> or \<open>nan\<close>): on \<open>my_eval\<close> with a constant under the token \<open>3\<close>
  added, the token \<open>3\<close> after the numeric token \<open>2\<close> is handled by the numeric branch, the
  implicit operation's token is not pushed, and \<open>parse("2 3")\<close> is \<open>['2', '3']\<close>.
\<close>

theorem implicit_operation_numeric_constant_counterexample:
  "constants numeral_constant_evaluator ''3'' \<noteq> None
   \<and> implicit_operation numeral_constant_evaluator = Some MULTIPLICATION
   \<and> is_numeric float_example ([''2'', ''3''] ! (1 - 1))
   \<and> parse_token float_example numeral_constant_evaluator [''2'', ''3''] 1 ''3'' ([], [''2''])
       = Inr ([], [''2'', ''3''])
   \<and> enumerates numeral_enumeration_example numeral_constant_evaluator
   \<and> parse float_example numeral_constant_evaluator numeral_enumeration_example ''2 3''
       = Inr [''2'', ''3'']"
  by (simp add: numeral_constant_evaluator_def add_constant_def my_eval_eq float_example_def
      is_numeric_def parse_token_def enumerates_def recognised_tokens_def
      numeral_enumeration_example_def enumeration_example_def parse_def
      shuntyard_format_string_def str_split_def is_space_def insert_commute)

section \<open>Postfix evaluator\<close>

lemma apply_symbol_underflow:
  "length vals < n_var refer \<Longrightarrow> apply_symbol char refer vals = Inl (TooFewOperands char)"
  by (simp add: apply_symbol_def)

lemma apply_symbol_enough:
  "length args = n_var refer \<Longrightarrow>
   apply_symbol char refer (rev args @ rest) =
     (case operation refer args of Inl e \<Rightarrow> Inl e | Inr r \<Rightarrow> Inr (r # rest))"
  by (simp add: apply_symbol_def call_def split: sum.splits)

lemma evaluate_token_symbol:
  "operators ev char = Some opr \<and> refer = OperatorObject opr
   \<or> operators ev char = None \<and> mfunctions ev char = Some refer \<Longrightarrow>
   evaluate_token flt ev char vals = apply_symbol char refer vals"
  by (auto simp: evaluate_token_def)

lemma evaluate_tokens_append:
  "evaluate_tokens flt ev (xs @ ys) vals =
     (case evaluate_tokens flt ev xs vals of
        Inl e \<Rightarrow> Inl e
      | Inr vals' \<Rightarrow> evaluate_tokens flt ev ys vals')"
  by (induction xs arbitrary: vals) (auto split: sum.splits)

text \<open>
  C6 (as the code has it). Let the token \<open>char\<close> be an operator's, or else a function's,
  and \<open>refer\<close> that symbol. When the value stack holds fewer than \<open>refer.n_var\<close> values the
  step raises the OperandException "Too few operands to evaluate char". When the stack
  holds the values \<open>args\<close>, pushed from left to right (so the stack is \<open>rev args @ rest\<close>),
  and their number is the arity (any stack of at least \<open>refer.n_var\<close> values is of this
  form, with \<open>args\<close> the reverse of its top), the step applies the operation to \<open>args\<close> in
  that order;
  it leaves the result on \<open>rest\<close>, or fails with the exception of the operation, whatever
  that is. The same for the evaluator as a whole, where the stack is the one that the
  tokens \<open>pre\<close> before \<open>char\<close> leave: \<open>postfit_evaluate\<close> fails with that exception, or
  goes on with the tokens after \<open>char\<close> on the stack with the result pushed.
\<close>

theorem evaluator_applies_symbol:
  assumes "operators ev char = Some opr \<and> refer = OperatorObject opr
           \<or> operators ev char = None \<and> mfunctions ev char = Some refer"
  shows "(length vals < n_var refer \<longrightarrow>
            evaluate_token flt ev char vals = Inl (TooFewOperands char))
       \<and> (length args = n_var refer \<longrightarrow>
            evaluate_token flt ev char (rev args @ rest) =
              (case operation refer args of Inl e \<Rightarrow> Inl e | Inr r \<Rightarrow> Inr (r # rest)))
       \<and> (n_var refer \<le> length vals' \<longrightarrow>
            evaluate_token flt ev char vals' =
              (case operation refer (rev (take (n_var refer) vals')) of
                 Inl e \<Rightarrow> Inl e
               | Inr r \<Rightarrow> Inr (r # drop (n_var refer) vals')))
       \<and> (evaluate_tokens flt ev pre [] = Inr vals \<and> length vals < n_var refer \<longrightarrow>
            evaluate_tokens flt ev (pre @ char # post) [] = Inl (TooFewOperands char)
            \<and> postfit_evaluate flt ev (pre @ char # post) = Inl (TooFewOperands char))
       \<and> (evaluate_tokens flt ev pre' [] = Inr (rev args @ rest) \<and> length args = n_var refer \<longrightarrow>
            evaluate_tokens flt ev (pre' @ char # post') [] =
              (case operation refer args of
                 Inl e \<Rightarrow> Inl e
               | Inr r \<Rightarrow> evaluate_tokens flt ev post' (r # rest))
            \<and> (\<forall>e. operation refer args = Inl e \<longrightarrow>
                   postfit_evaluate flt ev (pre' @ char # post') = Inl e))
       \<and> py_class (TooFewOperands char) = OperandException"
proof -
  have full: "n_var refer \<le> length vals' \<longrightarrow>
      evaluate_token flt ev char vals' =
        (case operation refer (rev (take (n_var refer) vals')) of
           Inl e \<Rightarrow> Inl e
         | Inr r \<Rightarrow> Inr (r # drop (n_var refer) vals'))"
    by (simp add: evaluate_token_symbol[OF assms] apply_symbol_def call_def)
  have rest: "(length vals < n_var refer \<longrightarrow>
            evaluate_token flt ev char vals = Inl (TooFewOperands char))
       \<and> (length args = n_var refer \<longrightarrow>
            evaluate_token flt ev char (rev args @ rest) =
              (case operation refer args of Inl e \<Rightarrow> Inl e | Inr r \<Rightarrow> Inr (r # rest)))
       \<and> (evaluate_tokens flt ev pre [] = Inr vals \<and> length vals < n_var refer \<longrightarrow>
            evaluate_tokens flt ev (pre @ char # post) [] = Inl (TooFewOperands char)
            \<and> postfit_evaluate flt ev (pre @ char # post) = Inl (TooFewOperands char))
       \<and> (evaluate_tokens flt ev pre' [] = Inr (rev args @ rest) \<and> length args = n_var refer \<longrightarrow>
            evaluate_tokens flt ev (pre' @ char # post') [] =
              (case operation refer args of
                 Inl e \<Rightarrow> Inl e
               | Inr r \<Rightarrow> evaluate_tokens flt ev post' (r # rest))
            \<and> (\<forall>e. operation refer args = Inl e \<longrightarrow>
                   postfit_evaluate flt ev (pre' @ char # post') = Inl e))"
    by (auto simp: evaluate_token_symbol[OF assms] apply_symbol_underflow apply_symbol_enough
        evaluate_tokens_append postfit_evaluate_def split: sum.splits)
  from full rest show ?thesis by simp
qed

text \<open>
  The witness: \<open>-\<close> on \<open>my_eval\<close>. One step with one value on the stack, and with 1, 7 and
  2 pushed in this order (7 - 2 is computed, not 2 - 7); the expression \<open>3 - 2\<close> in
  postfix order with the operator too early; and \<open>3 2 - 2 *\<close>, which leaves 2.
\<close>

theorem evaluator_applies_symbol_witness:
  "operators my_eval ''-'' = Some SUBTRACTION
   \<and> evaluate_token float_example my_eval ''-'' [5] = Inl (TooFewOperands ''-'')
   \<and> evaluate_token float_example my_eval ''-'' [2, 7, 1] = Inr [5, 1]
   \<and> evaluate_tokens float_example my_eval [''3''] [] = Inr [3]
   \<and> postfit_evaluate float_example my_eval ([''3''] @ ''-'' # [''2''])
       = Inl (TooFewOperands ''-'')
   \<and> evaluate_tokens float_example my_eval [''3'', ''2''] [] = Inr (rev [3, 2] @ [])
   \<and> evaluate_tokens float_example my_eval ([''3'', ''2''] @ ''-'' # [''2'', ''*'']) []
       = Inr [2]"
  using evaluator_applies_symbol[where ev = my_eval and char = "''-''" and opr = SUBTRACTION
      and refer = "OperatorObject SUBTRACTION" and vals = "[5]" and flt = float_example
      and args = "[7, 2]" and rest = "[1]" and vals' = "[2, 7, 1]" and pre = "[''3'']"
      and post = "[''2'']" and pre' = "[''3'', ''2'']" and post' = "[''2'', ''*'']"]
  by (simp add: my_eval_eq SUBTRACTION_def MULTIPLICATION_def lift2_def float_example_def
      evaluate_token_def apply_symbol_def call_def postfit_evaluate_def)

text \<open>
  C6 as stated fails in its "exactly when": the function \<open>g\<close> built from the body \<open>x_1 +\<close>
  has arity 1, the stack holds one value, and the step fails with the OperandException
  "Too few operands" all the same, raised inside the operation (by the evaluation of
  the template \<open>['3.0', '+']\<close>).
\<close>

theorem insufficient_operands_from_operation_counterexample:
  "operators underflow_evaluator ''g'' = None
   \<and> mfunctions underflow_evaluator ''g'' = Some underflowing_function
   \<and> n_var underflowing_function = 1
   \<and> evaluate_tokens float_example underflow_evaluator [''3''] [] = Inr [3]
   \<and> evaluate_token float_example underflow_evaluator ''g'' [3] = Inl (TooFewOperands ''+'')
   \<and> postfit_evaluate float_example underflow_evaluator [''3'', ''g'']
       = Inl (TooFewOperands ''+'')"
  by (simp add: underflow_evaluator_def underflowing_function_def add_function_def my_eval_eq
      float_example_def str_example_def evaluate_token_def apply_symbol_def call_def
      postfit_evaluate_def func_operation_def py_int_char_def py_index_def ADDITION_def)

section \<open>Functions added by the user\<close>

text \<open>
  The body \<open>x_1 + x_2 * 2\<close> parses, on \<open>func_eval\<close>, to the template of the example.
\<close>

lemma func_eval_parses_example:
  "parse float_example func_eval func_enumeration_example ''x_1 + x_2 * 2''
     = Inr [''x_1'', ''x_2'', ''2'', ''*'', ''+'']"
  by (simp add: func_eval_eq parse_def shuntyard_format_string_def func_enumeration_example_def
      float_example_def str_split_def is_numeric_def parse_token_def is_space_def
      check_implicit_operation_def ADDITION_def MULTIPLICATION_def)

text \<open>The body \<open>x_1 +\<close> parses to the template of the function \<open>g\<close>.\<close>

lemma func_eval_parses_underflowing_body:
  "parse float_example func_eval func_enumeration_example ''x_1 +'' = Inr [''x_1'', ''+'']"
  by (simp add: func_eval_eq parse_def shuntyard_format_string_def func_enumeration_example_def
      float_example_def str_split_def is_numeric_def parse_token_def is_space_def
      check_implicit_operation_def ADDITION_def)

lemma substitute_no_placeholder:
  "list_all (\<lambda>t. take 2 t \<noteq> ''x_'') expression \<Longrightarrow>
   substitute_arguments str_of args expression = (None, expression)"
  by (induction expression) auto

lemma func_operation_no_placeholder:
  "list_all (\<lambda>t. take 2 t \<noteq> ''x_'') expression \<Longrightarrow>
   func_operation str_of flt ev args expression = (postfit_evaluate flt ev expression, expression)"
  by (simp add: func_operation_def substitute_no_placeholder)

text \<open>
  In general: when \<open>str\<close> never yields a string that starts with \<open>x_\<close> and the first
  call substitutes without an exception, the list holds no placeholder afterwards, and
  a later call with any arguments \<open>args'\<close> evaluates the list of the first call.
\<close>

lemma substitute_arguments_rewrites_all:
  assumes "\<And>a. take 2 (str_of a) \<noteq> ''x_''"
  shows "substitute_arguments str_of args expression = (None, expression') \<Longrightarrow>
         list_all (\<lambda>t. take 2 t \<noteq> ''x_'') expression'"
proof (induction expression arbitrary: expression')
  case Nil
  then show ?case by simp
next
  case (Cons tok expression)
  obtain r e where re: "substitute_arguments str_of args expression = (r, e)"
    by (cases "substitute_arguments str_of args expression")
  with Cons.prems have "r = None"
    by (auto split: if_splits sum.splits)
  with re Cons.IH have "list_all (\<lambda>t. take 2 t \<noteq> ''x_'') e" by simp
  with Cons.prems re assms show ?case
    by (auto split: if_splits sum.splits)
qed

lemma func_operation_repeats_first_result:
  assumes "\<And>a. take 2 (str_of a) \<noteq> ''x_''"
    and "substitute_arguments str_of args expression = (None, expression')"
  shows "func_operation str_of flt ev args expression
           = (postfit_evaluate flt ev expression', expression')
       \<and> func_operation str_of flt ev args' expression'
           = (postfit_evaluate flt ev expression', expression')"
proof -
  have "list_all (\<lambda>t. take 2 t \<noteq> ''x_'') expression'"
    using assms by (rule substitute_arguments_rewrites_all)
  then have "func_operation str_of flt ev args' expression'
           = (postfit_evaluate flt ev expression', expression')"
    by (rule func_operation_no_placeholder)
  moreover have "func_operation str_of flt ev args expression
           = (postfit_evaluate flt ev expression', expression')"
    by (simp add: func_operation_def assms(2))
  ultimately show ?thesis by simp
qed

text \<open>
  C3. The function of the template \<open>['x_1', 'x_2', '2', '*', '+']\<close>, called with (3, 4),
  returns 11 and leaves its own list rewritten to \<open>['3.0', '4.0', '2', '*', '+']\<close>; the
  next call, whatever its arguments \<open>args\<close>, finds no placeholder in that list and returns
  11 again (for \<open>str\<close> and \<open>float\<close> as Python has them on these numbers and literals).
\<close>

theorem func_operation_keeps_first_arguments:
  assumes "str_of 3 = ''3.0''" "str_of 4 = ''4.0''"
    and "flt ''3.0'' = Some 3" "flt ''4.0'' = Some 4" "flt ''2'' = Some 2"
  shows "func_operation str_of flt my_eval [3, 4] [''x_1'', ''x_2'', ''2'', ''*'', ''+'']
           = (Inr 11, [''3.0'', ''4.0'', ''2'', ''*'', ''+''])
       \<and> func_operation str_of flt my_eval args [''3.0'', ''4.0'', ''2'', ''*'', ''+'']
           = (Inr 11, [''3.0'', ''4.0'', ''2'', ''*'', ''+''])"
proof -
  have ev: "postfit_evaluate flt my_eval [''3.0'', ''4.0'', ''2'', ''*'', ''+''] = Inr 11"
    using assms(3-5)
    by (simp add: my_eval_eq postfit_evaluate_def evaluate_token_def apply_symbol_def call_def
        ADDITION_def MULTIPLICATION_def lift2_def)
  have sub: "substitute_arguments str_of [3, 4] [''x_1'', ''x_2'', ''2'', ''*'', ''+'']
      = (None, [''3.0'', ''4.0'', ''2'', ''*'', ''+''])"
    using assms(1,2) by (simp add: py_int_char_def py_index_def)
  have 1: "func_operation str_of flt my_eval [3, 4] [''x_1'', ''x_2'', ''2'', ''*'', ''+'']
           = (Inr 11, [''3.0'', ''4.0'', ''2'', ''*'', ''+''])"
    unfolding func_operation_def sub by (simp add: ev)
  have 2: "func_operation str_of flt my_eval args [''3.0'', ''4.0'', ''2'', ''*'', ''+'']
           = (Inr 11, [''3.0'', ''4.0'', ''2'', ''*'', ''+''])"
    by (simp add: func_operation_no_placeholder ev)
  from 1 2 show ?thesis by simp
qed

text \<open>The witness: the call with (3, 4), then the call with (1, 1), which is 11 and not 3.\<close>

theorem func_operation_keeps_first_arguments_witness:
  "str_example 3 = ''3.0'' \<and> str_example 4 = ''4.0''
   \<and> float_example ''3.0'' = Some 3 \<and> float_example ''4.0'' = Some 4
   \<and> float_example ''2'' = Some 2
   \<and> func_operation str_example float_example my_eval [3, 4]
        [''x_1'', ''x_2'', ''2'', ''*'', ''+'']
       = (Inr 11, [''3.0'', ''4.0'', ''2'', ''*'', ''+''])
   \<and> func_operation str_example float_example my_eval [1, 1]
        [''3.0'', ''4.0'', ''2'', ''*'', ''+'']
       = (Inr 11, [''3.0'', ''4.0'', ''2'', ''*'', ''+''])"
  using func_operation_keeps_first_arguments[of str_example float_example "[1, 1]"]
  by (simp add: str_example_def float_example_def)

end
